theory Spec2Isabelle
  imports Main "HOL-Library.AList"
begin

section \<open>Values exchanged with the handlers\<close>

text \<open>
  The repository holds three generations of the same Express server that keep
  orders in one JSON document: \<^verbatim>\<open>src/server.js\<close> (definitions with the suffix
  \<open>_srv\<close>), \<^verbatim>\<open>src/unnamed/part_000\<close> (suffix \<open>_p000\<close>) and
  \<^verbatim>\<open>src/unnamed/part_002\<close> (suffix \<open>_p002\<close>).

  A string field of a request body or of a stored object is a \<open>string option\<close>:
  \<open>None\<close> is JavaScript's \<^verbatim>\<open>undefined\<close> (the key is absent), so that \<^verbatim>\<open>===\<close>
  between two such fields is equality of the options.
\<close>

definition falsy :: "string option \<Rightarrow> bool" where
  \<comment> \<open>\<^verbatim>\<open>!v\<close> for a string or undefined\<close>
  "falsy v = (case v of None \<Rightarrow> True | Some s \<Rightarrow> s = [])"

definition String_js :: "string option \<Rightarrow> string" where
  \<comment> \<open>\<^verbatim>\<open>String(v)\<close>, also the rendering of \<^verbatim>\<open>${v}\<close> in a template literal\<close>
  "String_js v = (case v of None \<Rightarrow> ''undefined'' | Some s \<Rightarrow> s)"

definition or_else :: "string option \<Rightarrow> string \<Rightarrow> string" where
  \<comment> \<open>\<^verbatim>\<open>v || d\<close> for a string or undefined \<open>v\<close>\<close>
  "or_else v d = (case v of None \<Rightarrow> d | Some s \<Rightarrow> if s = [] then d else s)"

fun digits :: "nat \<Rightarrow> string" where
  \<comment> \<open>the decimal rendering of \<^verbatim>\<open>Date.now()\<close> inside a template literal\<close>
  "digits n =
     (if n < 10 then [''0123456789'' ! n]
      else digits (n div 10) @ [''0123456789'' ! (n mod 10)])"

declare digits.simps [simp del]

text \<open>
  A stored order. JSON numbers are IEEE doubles whose arithmetic is not modelled:
  the type \<open>'n\<close> stands for them, \<open>'c\<close> for a cart line and \<open>'k\<close> for the
  free-form customer object. Fields that a handler adds later
  (\<^verbatim>\<open>razorpay_payment_id\<close>, \<^verbatim>\<open>razorpay_signature\<close>, \<^verbatim>\<open>paid_at\<close>) are absent
  (\<open>None\<close>) until then; \<^verbatim>\<open>id\<close> is written \<open>id_num\<close>.
\<close>

record ('n, 'c, 'k) order_rec =
  id_num :: nat
  receipt :: "string option"
  razorpay_order_id :: "string option"
  amount :: 'n
  amount_paise :: 'n
  currency :: string
  cart :: "'c list option"
  customer :: "'k option"
  status :: string
  created_at :: nat
  eta :: "string option"
  razorpay_payment_id :: "string option"
  razorpay_signature :: "string option"
  paid_at :: "nat option"

datatype jsval = Str string | Num nat

type_synonym user = "(string \<times> jsval) list"

record ('n, 'c, 'k) db =
  orders :: "('n, 'c, 'k) order_rec list option"
  users :: "user list option"

definition or_empty :: "'a list option \<Rightarrow> 'a list" where
  \<comment> \<open>\<^verbatim>\<open>db.orders || []\<close>: an array is truthy even when empty\<close>
  "or_empty xs = (case xs of None \<Rightarrow> [] | Some ys \<Rightarrow> ys)"

subsection \<open>The payment gateway client\<close>

record 'n rzp_options =
  opt_amount :: 'n
  opt_currency :: string
  opt_receipt :: string
  opt_payment_capture :: nat

record 'n rzp_order =
  rzp_id :: string
  rzp_amount :: 'n
  rzp_currency :: string
  rzp_receipt :: "string option"

subsection \<open>The world a handler runs in\<close>

text \<open>
  The persisted document is \<open>disk\<close>: \<open>None\<close> when \<^verbatim>\<open>db.json\<close> is absent,
  empty or not parseable. Every read of the file, every write and every call of
  \<^verbatim>\<open>razorpay.orders.create\<close> is appended to \<open>trace\<close>. Writes are taken to
  succeed.
\<close>

datatype 'n io = File_read | File_write | Gateway_call "'n rzp_options"

record ('n, 'c, 'k) world =
  disk :: "('n, 'c, 'k) db option"
  trace :: "'n io list"

text \<open>
  Module-level constants and the library functions the handlers call. \<open>razorpay\<close>
  is \<open>None\<close> when the client was not constructed; a client answers
  \<^verbatim>\<open>orders.create\<close> with an order or rejects with a message.
\<close>

record ('n, 'c, 'p) env =
  RZP_KEY_ID :: string
  RZP_KEY_SECRET :: string
  razorpay :: "('n rzp_options \<Rightarrow> string + 'n rzp_order) option"
  hmac_sha256_hex :: "string \<Rightarrow> string \<Rightarrow> string"
  falsy_number :: "'n \<Rightarrow> bool"
  round_times_100 :: "'n \<Rightarrow> 'n"
  cart_item_of :: "'p \<Rightarrow> 'c"
  pbkdf2_hex :: "string \<Rightarrow> string \<Rightarrow> string"
  from_hex :: "string \<Rightarrow> nat list"
  toLowerCase :: "string \<Rightarrow> string"
  trim :: "string \<Rightarrow> string"

definition readDB_p000 :: "('n, 'c, 'k) world \<Rightarrow> ('n, 'c, 'k) db \<times> ('n, 'c, 'k) world" where
  "readDB_p000 w =
     ((case disk w of None \<Rightarrow> \<lparr>orders = Some [], users = None\<rparr> | Some d \<Rightarrow> d),
      w\<lparr>trace := trace w @ [File_read]\<rparr>)"

definition readDB_p002 :: "('n, 'c, 'k) world \<Rightarrow> ('n, 'c, 'k) db \<times> ('n, 'c, 'k) world" where
  "readDB_p002 w =
     ((case disk w of None \<Rightarrow> \<lparr>orders = Some [], users = Some []\<rparr> | Some d \<Rightarrow> d),
      w\<lparr>trace := trace w @ [File_read]\<rparr>)"

definition writeDB :: "('n, 'c, 'k) db \<Rightarrow> ('n, 'c, 'k) world \<Rightarrow> ('n, 'c, 'k) world" where
  "writeDB obj w = w\<lparr>disk := Some obj, trace := trace w @ [File_write]\<rparr>"

fun findIndex :: "('a \<Rightarrow> bool) \<Rightarrow> 'a list \<Rightarrow> nat option" where
  \<comment> \<open>\<^verbatim>\<open>Array.prototype.findIndex\<close>; \<open>None\<close> is the result \<^verbatim>\<open>-1\<close>\<close>
  "findIndex P [] = None"
| "findIndex P (x # xs) = (if P x then Some 0 else map_option Suc (findIndex P xs))"

definition index_js :: "nat option \<Rightarrow> int" where
  "index_js idx = (case idx of None \<Rightarrow> - 1 | Some i \<Rightarrow> int i)"

section \<open>Payment verification\<close>

record verify_body =
  body_razorpay_order_id :: "string option"
  body_razorpay_payment_id :: "string option"
  body_razorpay_signature :: "string option"
  body_receipt :: "string option"

text \<open>
  The responses of \<^verbatim>\<open>/verify-payment\<close>: \<open>Verify_result v i o\<close> is
  \<^verbatim>\<open>{verified, order_index, order}\<close>, \<open>Verify_only v\<close> is \<^verbatim>\<open>{verified}\<close>,
  \<open>Verify_rejected c r\<close> is status \<open>c\<close> with \<^verbatim>\<open>{verified: false, reason}\<close> and
  \<open>Verify_error c e\<close> is status \<open>c\<close> with \<^verbatim>\<open>{error}\<close>.
\<close>

datatype ('n, 'c, 'k) verify_response =
    Verify_result bool int "('n, 'c, 'k) order_rec option"
  | Verify_only bool
  | Verify_rejected nat string
  | Verify_error nat string

fun verified_of :: "('n, 'c, 'k) verify_response \<Rightarrow> bool option" where
  "verified_of (Verify_result v i ord) = Some v"
| "verified_of (Verify_only v) = Some v"
| "verified_of (Verify_rejected c r) = Some False"
| "verified_of (Verify_error c e) = None"

definition generated_signature :: "('n, 'c, 'p) env \<Rightarrow> verify_body \<Rightarrow> string" where
  \<comment> \<open>\<^verbatim>\<open>createHmac("sha256", RZP_KEY_SECRET).update(`${order_id}|${payment_id}`).digest("hex")\<close>\<close>
  "generated_signature e b =
     hmac_sha256_hex e (RZP_KEY_SECRET e)
       (String_js (body_razorpay_order_id b) @ ''|'' @ String_js (body_razorpay_payment_id b))"

definition matches_coerced :: "verify_body \<Rightarrow> ('n, 'c, 'k) order_rec \<Rightarrow> bool" where
  \<comment> \<open>the \<^verbatim>\<open>findIndex\<close> predicate of \<^verbatim>\<open>server.js\<close> and \<^verbatim>\<open>part_000\<close>\<close>
  "matches_coerced b ord \<longleftrightarrow>
     razorpay_order_id ord = body_razorpay_order_id b \<or>
     String_js (receipt ord) = String_js (body_receipt b)"

definition matches_strict :: "verify_body \<Rightarrow> ('n, 'c, 'k) order_rec \<Rightarrow> bool" where
  \<comment> \<open>the \<^verbatim>\<open>findIndex\<close> predicate of \<^verbatim>\<open>part_002\<close>\<close>
  "matches_strict b ord \<longleftrightarrow>
     razorpay_order_id ord = body_razorpay_order_id b \<or> receipt ord = body_receipt b"

definition mark_verified ::
  "verify_body \<Rightarrow> nat \<Rightarrow> ('n, 'c, 'k) order_rec \<Rightarrow> ('n, 'c, 'k) order_rec" where
  "mark_verified b now ord =
     ord\<lparr>status := ''paid'',
         razorpay_payment_id := body_razorpay_payment_id b,
         razorpay_signature := body_razorpay_signature b,
         paid_at := Some now\<rparr>"

definition settle ::
  "('n, 'c, 'p) env \<Rightarrow> nat \<Rightarrow> verify_body \<Rightarrow> ('n, 'c, 'k) world \<Rightarrow>
   ('n, 'c, 'k) verify_response \<times> ('n, 'c, 'k) world" where
  \<comment> \<open>the part of the handler that \<^verbatim>\<open>server.js\<close> and \<^verbatim>\<open>part_000\<close> share: from the
      signature computation to the response\<close>
  "settle e now b w =
     (let verified = (Some (generated_signature e b) = body_razorpay_signature b);
          (d, w1) = readDB_p000 w;
          os = or_empty (orders d);
          idx = findIndex (matches_coerced b) os
      in case idx of
           Some i \<Rightarrow>
             if verified then
               let os' = os[i := mark_verified b now (os ! i)]
               in (Verify_result verified (index_js idx) (Some (os' ! i)),
                   writeDB (d\<lparr>orders := Some os'\<rparr>) w1)
             else
               let os' = os[i := (os ! i)\<lparr>status := ''payment_failed''\<rparr>]
               in (Verify_result verified (index_js idx) (Some (os' ! i)),
                   writeDB (d\<lparr>orders := Some os'\<rparr>) w1)
         | None \<Rightarrow> (Verify_result verified (index_js idx) None, w1))"

definition verify_payment_srv ::
  "('n, 'c, 'p) env \<Rightarrow> nat \<Rightarrow> verify_body \<Rightarrow> ('n, 'c, 'k) world \<Rightarrow>
   ('n, 'c, 'k) verify_response \<times> ('n, 'c, 'k) world" where
  "verify_payment_srv e now b w =
     (if falsy (body_razorpay_order_id b) \<or> falsy (body_razorpay_payment_id b)
         \<or> falsy (body_razorpay_signature b)
      then (Verify_error 400 ''Missing Razorpay fields'', w)
      else settle e now b w)"

definition verify_payment_p000 ::
  "('n, 'c, 'p) env \<Rightarrow> nat \<Rightarrow> verify_body \<Rightarrow> ('n, 'c, 'k) world \<Rightarrow>
   ('n, 'c, 'k) verify_response \<times> ('n, 'c, 'k) world" where
  "verify_payment_p000 e now b w =
     (if falsy (body_razorpay_order_id b) \<or> falsy (body_razorpay_payment_id b)
         \<or> falsy (body_razorpay_signature b)
      then (Verify_rejected 400 ''missing_fields'', w)
      else if RZP_KEY_SECRET e = [] then (Verify_rejected 500 ''server_secret_missing'', w)
      else settle e now b w)"

definition verify_payment_p002 ::
  "('n, 'c, 'p) env \<Rightarrow> verify_body \<Rightarrow> ('n, 'c, 'k) world \<Rightarrow>
   ('n, 'c, 'k) verify_response \<times> ('n, 'c, 'k) world" where
  "verify_payment_p002 e b w =
     (let verified = (Some (generated_signature e b) = body_razorpay_signature b);
          (d, w1) = readDB_p002 w;
          os = or_empty (orders d);
          idx = findIndex (matches_strict b) os
      in case idx of
           Some i \<Rightarrow>
             let os' = os[i := (os ! i)\<lparr>status := (if verified then ''paid'' else ''payment_failed''),
                                        razorpay_payment_id := body_razorpay_payment_id b\<rparr>]
             in (Verify_only verified, writeDB (d\<lparr>orders := Some os'\<rparr>) w1)
         | None \<Rightarrow> (Verify_only verified, w1))"

definition stored_orders :: "('n, 'c, 'k) world \<Rightarrow> ('n, 'c, 'k) order_rec list" where
  \<comment> \<open>the orders collection of the persisted document\<close>
  "stored_orders w = (case disk w of None \<Rightarrow> [] | Some d \<Rightarrow> or_empty (orders d))"

section \<open>Order creation\<close>

record ('n, 'c, 'k, 'p) create_body =
  co_amount :: "'n option"
  co_currency :: "string option"
  co_receipt :: "string option"
  co_cart :: "'c list option"
  co_selectedProduct :: "'p option"
  co_customer :: "'k option"
  co_cod :: bool

text \<open>
  The values \<^verbatim>\<open>Date.now()\<close> returns at its four call sites within one request:
  the generated receipt, the cash-on-delivery id, the order's \<^verbatim>\<open>id\<close> and its
  \<^verbatim>\<open>created_at\<close>.
\<close>

record clock =
  now_receipt :: nat
  now_cod :: nat
  now_id :: nat
  now_created :: nat

text \<open>
  \<open>Created order_id amount currency receipt key_id\<close> is the success body;
  \<open>Create_failed c e d\<close> is status \<open>c\<close> with \<^verbatim>\<open>{error: e, detail: d}\<close>.
\<close>

datatype 'n create_response =
    Created string 'n string string string
  | Create_failed nat string "string option"

definition currency_or_INR :: "string option \<Rightarrow> string" where
  \<comment> \<open>the destructuring default \<^verbatim>\<open>currency = "INR"\<close>, taken only for undefined\<close>
  "currency_or_INR c = (case c of None \<Rightarrow> ''INR'' | Some s \<Rightarrow> s)"

definition gateway_options ::
  "('n, 'c, 'p) env \<Rightarrow> clock \<Rightarrow> ('n, 'c, 'k, 'p) create_body \<Rightarrow> 'n \<Rightarrow> 'n rzp_options" where
  \<comment> \<open>the argument of \<^verbatim>\<open>razorpay.orders.create\<close> in \<^verbatim>\<open>part_000\<close> and \<^verbatim>\<open>part_002\<close>:
      the amount is \<^verbatim>\<open>Math.round(Number(amount) * 100)\<close>, the receipt is
      \<^verbatim>\<open>receipt || `rcpt_${Date.now()}`\<close>\<close>
  "gateway_options e clk b a =
     \<lparr>opt_amount = round_times_100 e a,
      opt_currency = currency_or_INR (co_currency b),
      opt_receipt = or_else (co_receipt b) (''rcpt_'' @ digits (now_receipt clk)),
      opt_payment_capture = 1\<rparr>"




definition new_order_p000 ::
  "clock \<Rightarrow> ('n, 'c, 'k, 'p) create_body \<Rightarrow> 'n \<Rightarrow> string \<Rightarrow> 'n rzp_order \<Rightarrow>
   ('n, 'c, 'k) order_rec" where
  \<comment> \<open>the object \<^verbatim>\<open>part_000\<close> pushes onto \<^verbatim>\<open>db.orders\<close>; \<open>rc\<close> is
      \<^verbatim>\<open>order.receipt || options.receipt\<close>\<close>
  "new_order_p000 clk b a rc ord =
     \<lparr>id_num = now_id clk,
      receipt = Some rc,
      razorpay_order_id = Some (rzp_id ord),
      amount = a,
      amount_paise = rzp_amount ord,
      currency = rzp_currency ord,
      cart = co_cart b,
      customer = co_customer b,
      status = ''created'',
      created_at = now_created clk,
      eta = None,
      razorpay_payment_id = None,
      razorpay_signature = None,
      paid_at = None\<rparr>"

definition create_order_p000 ::
  "('n, 'c, 'p) env \<Rightarrow> clock \<Rightarrow> ('n, 'c, 'k, 'p) create_body \<Rightarrow> ('n, 'c, 'k) world \<Rightarrow>
   'n create_response \<times> ('n, 'c, 'k) world" where
  "create_order_p000 e clk b w =
     (case co_amount b of
        None \<Rightarrow> (Create_failed 400 ''Missing amount'' None, w)
      | Some a \<Rightarrow>
          if falsy_number e a then (Create_failed 400 ''Missing amount'' None, w)
          else
            (case razorpay e of
               None \<Rightarrow> (Create_failed 500 ''Razorpay not configured'' None, w)
             | Some create \<Rightarrow>
                 let options = gateway_options e clk b a;
                     w0 = w\<lparr>trace := trace w @ [Gateway_call options]\<rparr>
                 in case create options of
                      Inl err \<Rightarrow> (Create_failed 500 ''Failed to create order'' (Some err), w0)
                    | Inr ord \<Rightarrow>
                        let (d, w1) = readDB_p000 w0;
                            os = or_empty (orders d);
                            rc = or_else (rzp_receipt ord) (opt_receipt options);
                            w2 = writeDB (d\<lparr>orders := Some (os @ [new_order_p000 clk b a rc ord])\<rparr>) w1
                        in (Created (rzp_id ord) (rzp_amount ord) (rzp_currency ord) rc
                              (RZP_KEY_ID e), w2)))"

definition finalCart :: "('n, 'c, 'p) env \<Rightarrow> ('n, 'c, 'k, 'p) create_body \<Rightarrow> 'c list" where
  \<comment> \<open>\<^verbatim>\<open>cart && cart.length > 0 ? cart : []\<close>, then the single line made of
      \<^verbatim>\<open>selectedProduct\<close> when that is empty\<close>
  "finalCart e b =
     (let fc = (case co_cart b of None \<Rightarrow> [] | Some xs \<Rightarrow> xs)
      in if fc = [] then (case co_selectedProduct b of None \<Rightarrow> fc | Some p \<Rightarrow> [cart_item_of e p])
         else fc)"

definition new_order_p002 ::
  "('n, 'c, 'p) env \<Rightarrow> clock \<Rightarrow> ('n, 'c, 'k, 'p) create_body \<Rightarrow> 'n \<Rightarrow> string \<Rightarrow>
   'n rzp_order \<Rightarrow> ('n, 'c, 'k) order_rec" where
  \<comment> \<open>the object \<^verbatim>\<open>part_002\<close> pushes onto \<^verbatim>\<open>db.orders\<close>\<close>
  "new_order_p002 e clk b a finalReceipt rzpOrder =
     \<lparr>id_num = now_id clk,
      receipt = Some finalReceipt,
      razorpay_order_id = Some (rzp_id rzpOrder),
      amount = a,
      amount_paise = rzp_amount rzpOrder,
      currency = rzp_currency rzpOrder,
      cart = Some (finalCart e b),
      customer = co_customer b,
      status = ''created'',
      created_at = now_created clk,
      eta = None,
      razorpay_payment_id = None,
      razorpay_signature = None,
      paid_at = None\<rparr>"

definition store_order_p002 ::
  "('n, 'c, 'p) env \<Rightarrow> clock \<Rightarrow> ('n, 'c, 'k, 'p) create_body \<Rightarrow> 'n \<Rightarrow> string \<Rightarrow>
   'n rzp_order \<Rightarrow> ('n, 'c, 'k) world \<Rightarrow> 'n create_response \<times> ('n, 'c, 'k) world" where
  \<comment> \<open>\<^verbatim>\<open>part_002\<close> from \<^verbatim>\<open>readDB()\<close> to the response, for the order \<open>rzpOrder\<close>
      of either branch\<close>
  "store_order_p002 e clk b a finalReceipt rzpOrder w =
     (let (d, w1) = readDB_p002 w;
          os = or_empty (orders d);
          w2 = writeDB (d\<lparr>orders := Some (os @ [new_order_p002 e clk b a finalReceipt rzpOrder])\<rparr>) w1
      in (Created (rzp_id rzpOrder) (rzp_amount rzpOrder) (rzp_currency rzpOrder) finalReceipt
            (RZP_KEY_ID e), w2))"

definition create_order_p002 ::
  "('n, 'c, 'p) env \<Rightarrow> clock \<Rightarrow> ('n, 'c, 'k, 'p) create_body \<Rightarrow> ('n, 'c, 'k) world \<Rightarrow>
   'n create_response \<times> ('n, 'c, 'k) world" where
  \<comment> \<open>the gateway is called under \<^verbatim>\<open>!cod && razorpay\<close>; otherwise \<open>rzpOrder\<close> is the
      local \<open>cod_order\<close>\<close>
  "create_order_p002 e clk b w =
     (case co_amount b of
        None \<Rightarrow> (Create_failed 400 ''Missing amount'' None, w)
      | Some a \<Rightarrow>
          if falsy_number e a then (Create_failed 400 ''Missing amount'' None, w)
          else
            let amountPaise = round_times_100 e a;
                finalReceipt = or_else (co_receipt b) (''rcpt_'' @ digits (now_receipt clk));
                cod_order = \<lparr>rzp_id = ''cod_'' @ digits (now_cod clk), rzp_amount = amountPaise,
                             rzp_currency = currency_or_INR (co_currency b),
                             rzp_receipt = None\<rparr>
            in if co_cod b then store_order_p002 e clk b a finalReceipt cod_order w
               else
                 (case razorpay e of
                    None \<Rightarrow> store_order_p002 e clk b a finalReceipt cod_order w
                  | Some create \<Rightarrow>
                      let options = gateway_options e clk b a;
                          w0 = w\<lparr>trace := trace w @ [Gateway_call options]\<rparr>
                      in case create options of
                           Inl err \<Rightarrow> (Create_failed 500 ''Failed to create order'' None, w0)
                         | Inr rzpOrder \<Rightarrow> store_order_p002 e clk b a finalReceipt rzpOrder w0))"

section \<open>Status update and deletion (\<^verbatim>\<open>part_002\<close>)\<close>

datatype ('n, 'c, 'k) update_response =
    Updated "('n, 'c, 'k) order_rec"
  | Update_failed nat string

datatype delete_response = Deleted

definition key_matches :: "string \<Rightarrow> ('n, 'c, 'k) order_rec \<Rightarrow> bool" where
  \<comment> \<open>\<^verbatim>\<open>o.razorpay_order_id === id || o.receipt === id\<close> for the route parameter \<open>id\<close>\<close>
  "key_matches key ord \<longleftrightarrow> razorpay_order_id ord = Some key \<or> receipt ord = Some key"

definition update_status_p002 ::
  "string \<Rightarrow> string option \<Rightarrow> string option \<Rightarrow> ('n, 'c, 'k) world \<Rightarrow>
   ('n, 'c, 'k) update_response \<times> ('n, 'c, 'k) world" where
  \<comment> \<open>\<^verbatim>\<open>if (status) ...\<close> and \<^verbatim>\<open>if (eta) ...\<close> assign only a non-empty string\<close>
  "update_status_p002 key st et w =
     (let (d, w1) = readDB_p002 w;
          os = or_empty (orders d)
      in case findIndex (key_matches key) os of
           None \<Rightarrow> (Update_failed 404 ''Not found'', w1)
         | Some i \<Rightarrow>
             let o1 = (case st of None \<Rightarrow> os ! i
                       | Some s \<Rightarrow> if s = [] then os ! i else (os ! i)\<lparr>status := s\<rparr>);
                 o2 = (case et of None \<Rightarrow> o1
                       | Some t \<Rightarrow> if t = [] then o1 else o1\<lparr>eta := Some t\<rparr>);
                 os' = os[i := o2]
             in (Updated (os' ! i), writeDB (d\<lparr>orders := Some os'\<rparr>) w1))"

definition delete_order_p002 ::
  "string \<Rightarrow> ('n, 'c, 'k) world \<Rightarrow> delete_response \<times> ('n, 'c, 'k) world" where
  "delete_order_p002 key w =
     (let (d, w1) = readDB_p002 w;
          os = or_empty (orders d);
          os' = filter (\<lambda>ord. razorpay_order_id ord \<noteq> Some key \<and> receipt ord \<noteq> Some key) os
      in (Deleted, writeDB (d\<lparr>orders := Some os'\<rparr>) w1))"

section \<open>Accounts (\<^verbatim>\<open>part_002\<close>)\<close>

text \<open>
  A stored user is a JSON object, kept as the list of its keys and values so that the
  object rest pattern \<^verbatim>\<open>{ password: _p, salt: _s, ...userSafe }\<close> can be read as what
  it is: the object without two of its keys.
\<close>

record auth_body =
  body_name :: "string option"
  body_email :: "string option"
  body_password :: "string option"

datatype auth_response =
    Auth_ok user "string option"
  | Auth_failed nat string

datatype exn = TypeError | RangeError

definition String_val :: "jsval option \<Rightarrow> string" where
  "String_val v = (case v of None \<Rightarrow> ''undefined'' | Some (Str s) \<Rightarrow> s | Some (Num n) \<Rightarrow> digits n)"

definition userSafe :: "user \<Rightarrow> user" where
  "userSafe u = filter (\<lambda>kv. fst kv \<noteq> ''password'' \<and> fst kv \<noteq> ''salt'') u"

definition hashPassword :: "('n, 'c, 'p) env \<Rightarrow> string option \<Rightarrow> string \<Rightarrow> string" where
  "hashPassword e password salt = pbkdf2_hex e (String_js password) salt"

definition verifyPassword ::
  "('n, 'c, 'p) env \<Rightarrow> string option \<Rightarrow> jsval option \<Rightarrow> jsval option \<Rightarrow> exn + bool" where
  \<comment> \<open>\<^verbatim>\<open>pbkdf2Sync\<close> and \<^verbatim>\<open>Buffer.from\<close> throw on a value that is not a string,
      \<^verbatim>\<open>timingSafeEqual\<close> on buffers of different lengths\<close>
  "verifyPassword e password salt hashed =
     (case salt of
        Some (Str sl) \<Rightarrow>
          (case hashed of
             Some (Str hx) \<Rightarrow>
               let x = from_hex e (hashPassword e password sl);
                   y = from_hex e hx
               in if length x = length y then Inr (x = y) else Inl RangeError
           | _ \<Rightarrow> Inl TypeError)
      | _ \<Rightarrow> Inl TypeError)"

definition email_matches :: "('n, 'c, 'p) env \<Rightarrow> string option \<Rightarrow> user \<Rightarrow> bool" where
  "email_matches e email u \<longleftrightarrow>
     toLowerCase e (String_val (map_of u ''email'')) = toLowerCase e (String_js email)"

definition register_p002 ::
  "('n, 'c, 'p) env \<Rightarrow> string \<Rightarrow> string \<Rightarrow> clock \<Rightarrow> auth_body \<Rightarrow> ('n, 'c, 'k) world \<Rightarrow>
   auth_response \<times> ('n, 'c, 'k) world" where
  \<comment> \<open>\<open>salt\<close> and \<open>token\<close> are the draws of \<^verbatim>\<open>genSalt()\<close> and \<^verbatim>\<open>genToken()\<close>\<close>
  "register_p002 e salt token clk b w =
     (if falsy (body_email b) \<or> falsy (body_password b) \<or> falsy (body_name b)
      then (Auth_failed 400 ''Missing fields'', w)
      else
        let (d, w1) = readDB_p002 w;
            us = or_empty (users d)
        in case findIndex (email_matches e (body_email b)) us of
             Some i \<Rightarrow> (Auth_failed 400 ''User already exists'', w1)
           | None \<Rightarrow>
               let hashed = hashPassword e (body_password b) salt;
                   u = [(''id'', Num (now_id clk)),
                        (''name'', Str (String_js (body_name b))),
                        (''email'', Str (toLowerCase e (String_js (body_email b)))),
                        (''salt'', Str salt),
                        (''password'', Str hashed),
                        (''token'', Str token),
                        (''created_at'', Num (now_created clk))];
                   w2 = writeDB (d\<lparr>users := Some (us @ [u])\<rparr>) w1
               in (Auth_ok (userSafe u) (Some token), w2))"

definition login_p002 ::
  "('n, 'c, 'p) env \<Rightarrow> string \<Rightarrow> auth_body \<Rightarrow> ('n, 'c, 'k) world \<Rightarrow>
   auth_response \<times> ('n, 'c, 'k) world" where
  "login_p002 e token b w =
     (if falsy (body_email b) \<or> falsy (body_password b)
      then (Auth_failed 400 ''Missing fields'', w)
      else
        let (d, w1) = readDB_p002 w;
            us = or_empty (users d)
        in case findIndex (email_matches e (body_email b)) us of
             None \<Rightarrow> (Auth_failed 400 ''Invalid credentials'', w1)
           | Some i \<Rightarrow>
               (case verifyPassword e (body_password b)
                       (map_of (us ! i) ''salt'') (map_of (us ! i) ''password'') of
                  Inl x \<Rightarrow> (Auth_failed 500 ''server_error'', w1)
                | Inr ok \<Rightarrow>
                    if ok then
                      let u = AList.update ''token'' (Str token) (us ! i);
                          w2 = writeDB (d\<lparr>users := Some (us[i := u])\<rparr>) w1
                      in (Auth_ok (userSafe u) (Some token), w2)
                    else (Auth_failed 400 ''Invalid credentials'', w1)))"

fun replace_first :: "string \<Rightarrow> string \<Rightarrow> string \<Rightarrow> string" where
  \<comment> \<open>\<^verbatim>\<open>s.replace(pat, rep)\<close> for a string pattern: the first occurrence only\<close>
  "replace_first pat rep [] = (if pat = [] then rep else [])"
| "replace_first pat rep (c # cs) =
     (if take (length pat) (c # cs) = pat then rep @ drop (length pat) (c # cs)
      else c # replace_first pat rep cs)"

definition me_p002 ::
  "('n, 'c, 'p) env \<Rightarrow> string option \<Rightarrow> ('n, 'c, 'k) world \<Rightarrow>
   auth_response \<times> ('n, 'c, 'k) world" where
  \<comment> \<open>\<open>authorization\<close> is the request header, \<open>None\<close> when it is not sent\<close>
  "me_p002 e authorization w =
     (let token = trim e (replace_first ''Bearer '' [] (or_else authorization []))
      in if token = [] then (Auth_failed 401 ''missing_token'', w)
         else
           let (d, w1) = readDB_p002 w;
               us = or_empty (users d)
           in case findIndex (\<lambda>u. map_of u ''token'' = Some (Str token)) us of
                None \<Rightarrow> (Auth_failed 401 ''invalid_token'', w1)
              | Some i \<Rightarrow> (Auth_ok (userSafe (us ! i)) None, w1))"

fun returned_user :: "auth_response \<Rightarrow> user option" where
  "returned_user (Auth_ok u t) = Some u"
| "returned_user (Auth_failed c m) = None"

section \<open>A sample configuration\<close>

text \<open>
  A configuration, a stored order and a stored user on which the general theorems
  below are instantiated. The stand-ins for the library functions are arbitrary: every
  theorem holds for all of them.
\<close>

definition sample_env :: "(nat, string, string) env" where
  "sample_env =
     \<lparr>RZP_KEY_ID = ''rzp_test_key'', RZP_KEY_SECRET = ''s3cret'',
      razorpay = Some (\<lambda>opts. Inr \<lparr>rzp_id = ''order_abc'', rzp_amount = opt_amount opts,
                                       rzp_currency = opt_currency opts,
                                       rzp_receipt = Some (opt_receipt opts)\<rparr>),
      hmac_sha256_hex = (\<lambda>key msg. key @ '':'' @ msg),
      falsy_number = (\<lambda>n. n = 0),
      round_times_100 = (\<lambda>n. n * 100),
      cart_item_of = (\<lambda>p. p),
      pbkdf2_hex = (\<lambda>pw salt. salt @ pw),
      from_hex = map of_char,
      toLowerCase = (\<lambda>s. s),
      trim = (\<lambda>s. s)\<rparr>"

definition sample_order :: "(nat, string, string) order_rec" where
  "sample_order =
     \<lparr>id_num = 1, receipt = Some ''r1'', razorpay_order_id = Some ''order_abc'',
      amount = 500, amount_paise = 50000, currency = ''INR'', cart = None, customer = None,
      status = ''created'', created_at = 1, eta = None, razorpay_payment_id = None,
      razorpay_signature = None, paid_at = None\<rparr>"

definition sample_user :: user where
  "sample_user =
     [(''id'', Num 2), (''name'', Str ''Asha''), (''email'', Str ''asha@example.com''),
      (''salt'', Str ''ab''), (''password'', Str ''abpw''), (''token'', Str ''tok0''),
      (''created_at'', Num 2)]"

definition sample_world :: "(nat, string, string) world" where
  "sample_world =
     \<lparr>disk = Some \<lparr>orders = Some [sample_order], users = Some [sample_user]\<rparr>, trace = []\<rparr>"

definition sample_clock :: clock where
  "sample_clock = \<lparr>now_receipt = 1700000000001, now_cod = 1700000000002,
                    now_id = 1700000000003, now_created = 1700000000004\<rparr>"

definition sample_body :: verify_body where
  "sample_body =
     \<lparr>body_razorpay_order_id = Some ''order_abc'', body_razorpay_payment_id = Some ''pay_123'',
      body_razorpay_signature = Some ''s3cret:order_abc|pay_123'', body_receipt = None\<rparr>"

definition sample_failed_body :: verify_body where
  "sample_failed_body =
     \<lparr>body_razorpay_order_id = Some ''order_abc'', body_razorpay_payment_id = Some ''pay_123'',
      body_razorpay_signature = Some ''xyz'', body_receipt = None\<rparr>"

definition other_order_body :: verify_body where
  "other_order_body =
     \<lparr>body_razorpay_order_id = Some ''order_B'', body_razorpay_payment_id = Some ''pay_1'',
      body_razorpay_signature = Some ''s3cret:order_B|pay_1'', body_receipt = None\<rparr>"

definition sample_create_body :: "(nat, string, string, string) create_body" where
  "sample_create_body =
     \<lparr>co_amount = Some 500, co_currency = None, co_receipt = Some ''r2'', co_cart = None,
      co_selectedProduct = Some ''mango pickle'', co_customer = None, co_cod = False\<rparr>"

definition receipt_undefined_world :: "(nat, string, string) world" where
  "receipt_undefined_world =
     snd (create_order_p000 sample_env sample_clock
            (sample_create_body\<lparr>co_receipt := Some ''undefined''\<rparr>)
            \<lparr>disk = None, trace = []\<rparr>)"

definition unreachable_gateway :: "nat rzp_options \<Rightarrow> string + nat rzp_order" where
  "unreachable_gateway opts = Inl ''ECONNREFUSED''"



definition sample_login :: auth_body where
  "sample_login =
     \<lparr>body_name = None, body_email = Some ''asha@example.com'', body_password = Some ''pw''\<rparr>"

section \<open>Facts about \<open>findIndex\<close>\<close>

lemma findIndex_Some_iff:
  "findIndex P xs = Some i \<longleftrightarrow> i < length xs \<and> P (xs ! i) \<and> (\<forall>j<i. \<not> P (xs ! j))"
proof (induction xs arbitrary: i)
  case Nil
  then show ?case by simp
next
  case (Cons x xs)
  show ?case
  proof (cases "P x")
    case True
    then show ?thesis by (cases i) auto
  next
    case False
    show ?thesis
    proof (cases i)
      case 0
      with False show ?thesis by auto
    next
      case (Suc k)
      have "(\<forall>j<Suc k. \<not> P ((x # xs) ! j)) \<longleftrightarrow> (\<forall>j<k. \<not> P (xs ! j))"
        using False by (auto simp: less_Suc_eq_0_disj)
      with False Suc Cons.IH [of k] show ?thesis by auto
    qed
  qed
qed

lemma findIndex_None_iff: "findIndex P xs = None \<longleftrightarrow> (\<forall>x \<in> set xs. \<not> P x)"
  by (induction xs) auto

section \<open>The store before and after a handler\<close>

lemma or_empty_simps [simp]: "or_empty (Some xs) = xs" "or_empty None = []"
  by (simp_all add: or_empty_def)

lemma readDB_p000_orders [simp]: "or_empty (orders (fst (readDB_p000 w))) = stored_orders w"
  by (simp add: readDB_p000_def stored_orders_def or_empty_def split: option.splits)

lemma readDB_p002_orders [simp]: "or_empty (orders (fst (readDB_p002 w))) = stored_orders w"
  by (simp add: readDB_p002_def stored_orders_def or_empty_def split: option.splits)

lemma stored_orders_writeDB [simp]: "stored_orders (writeDB d w) = or_empty (orders d)"
  by (simp add: writeDB_def stored_orders_def)

lemma stored_orders_readDB_p000 [simp]: "stored_orders (snd (readDB_p000 w)) = stored_orders w"
  by (simp add: readDB_p000_def stored_orders_def)

lemma stored_orders_readDB_p002 [simp]: "stored_orders (snd (readDB_p002 w)) = stored_orders w"
  by (simp add: readDB_p002_def stored_orders_def)

lemma settle_verified:
  "verified_of (fst (settle e now b w)) =
     Some (body_razorpay_signature b = Some (generated_signature e b))"
  by (auto simp: settle_def Let_def split: prod.splits option.splits)

lemma settle_orders:
  "stored_orders (snd (settle e now b w)) =
     (case findIndex (matches_coerced b) (stored_orders w) of
        None \<Rightarrow> stored_orders w
      | Some i \<Rightarrow>
          (stored_orders w)[i :=
             (if body_razorpay_signature b = Some (generated_signature e b)
              then mark_verified b now (stored_orders w ! i)
              else (stored_orders w ! i)\<lparr>status := ''payment_failed''\<rparr>)])"
proof -
  obtain d w1 where r: "readDB_p000 w = (d, w1)" by (cases "readDB_p000 w")
  have os: "or_empty (orders d) = stored_orders w"
    using readDB_p000_orders [of w] r by simp
  have w1: "stored_orders w1 = stored_orders w"
    using stored_orders_readDB_p000 [of w] r by simp
  show ?thesis
    by (auto simp: settle_def Let_def r os w1 split: option.splits)
qed

lemma verify_p002_verified:
  "verified_of (fst (verify_payment_p002 e b w)) =
     Some (body_razorpay_signature b = Some (generated_signature e b))"
  by (auto simp: verify_payment_p002_def Let_def split: prod.splits option.splits)

lemma verify_p002_orders:
  "stored_orders (snd (verify_payment_p002 e b w)) =
     (case findIndex (matches_strict b) (stored_orders w) of
        None \<Rightarrow> stored_orders w
      | Some i \<Rightarrow>
          (stored_orders w)[i := (stored_orders w ! i)
             \<lparr>status := (if body_razorpay_signature b = Some (generated_signature e b)
                         then ''paid'' else ''payment_failed''),
              razorpay_payment_id := body_razorpay_payment_id b\<rparr>])"
proof -
  obtain d w1 where r: "readDB_p002 w = (d, w1)" by (cases "readDB_p002 w")
  have os: "or_empty (orders d) = stored_orders w"
    using readDB_p002_orders [of w] r by simp
  have w1: "stored_orders w1 = stored_orders w"
    using stored_orders_readDB_p002 [of w] r by simp
  show ?thesis
    by (auto simp: verify_payment_p002_def Let_def r os w1 split: option.splits)
qed


section \<open>The signature decides the verification\<close>

text \<open>
  C1. For a request that supplies the three gateway fields, the \<open>verified\<close> of the
  response is true exactly when the supplied signature is the hex HMAC-SHA256 of
  \<open>order id | payment id\<close> under the configured secret: in \<^verbatim>\<open>part_002\<close> always, in
  \<^verbatim>\<open>part_000\<close> and \<^verbatim>\<open>server.js\<close> once the handler's guards are passed (no field
  empty, and in \<^verbatim>\<open>part_000\<close> a non-empty secret). Whenever the supplied signature
  differs from that HMAC, in one character or more, the matched order is stored with
  status \<open>payment_failed\<close>.
\<close>

theorem verified_iff_signature_is_hmac:
  assumes b: "b = \<lparr>body_razorpay_order_id = Some oid, body_razorpay_payment_id = Some pid,
                    body_razorpay_signature = Some s, body_receipt = r\<rparr>"
    and h: "h = hmac_sha256_hex e (RZP_KEY_SECRET e) (oid @ ''|'' @ pid)"
  shows "verified_of (fst (verify_payment_p002 e b w)) = Some (s = h) \<and>
    (oid \<noteq> [] \<and> pid \<noteq> [] \<and> s \<noteq> [] \<and> RZP_KEY_SECRET e \<noteq> [] \<longrightarrow>
       verified_of (fst (verify_payment_p000 e now b w)) = Some (s = h)) \<and>
    (oid \<noteq> [] \<and> pid \<noteq> [] \<and> s \<noteq> [] \<longrightarrow>
       verified_of (fst (verify_payment_srv e now b w)) = Some (s = h)) \<and>
    (s \<noteq> h \<longrightarrow>
       (\<forall>i. findIndex (matches_strict b) (stored_orders w) = Some i \<longrightarrow>
            status (stored_orders (snd (verify_payment_p002 e b w)) ! i) = ''payment_failed'') \<and>
       (oid \<noteq> [] \<and> pid \<noteq> [] \<and> s \<noteq> [] \<and> RZP_KEY_SECRET e \<noteq> [] \<longrightarrow>
          (\<forall>i. findIndex (matches_coerced b) (stored_orders w) = Some i \<longrightarrow>
            status (stored_orders (snd (verify_payment_p000 e now b w)) ! i) = ''payment_failed'')) \<and>
       (oid \<noteq> [] \<and> pid \<noteq> [] \<and> s \<noteq> [] \<longrightarrow>
          (\<forall>i. findIndex (matches_coerced b) (stored_orders w) = Some i \<longrightarrow>
            status (stored_orders (snd (verify_payment_srv e now b w)) ! i) = ''payment_failed'')))"
proof -
  have g: "generated_signature e b = h"
    by (simp add: generated_signature_def b h String_js_def)
  have sig: "(body_razorpay_signature b = Some (generated_signature e b)) = (s = h)"
    by (simp add: g) (simp add: b)
  have p002: "verified_of (fst (verify_payment_p002 e b w)) = Some (s = h)"
    by (simp add: verify_p002_verified sig)
  have p000: "verified_of (fst (verify_payment_p000 e now b w)) = Some (s = h)"
    if "oid \<noteq> [] \<and> pid \<noteq> [] \<and> s \<noteq> [] \<and> RZP_KEY_SECRET e \<noteq> []"
    using that by (simp add: verify_payment_p000_def settle_verified sig) (simp add: b falsy_def)
  have srv: "verified_of (fst (verify_payment_srv e now b w)) = Some (s = h)"
    if "oid \<noteq> [] \<and> pid \<noteq> [] \<and> s \<noteq> []"
    using that by (simp add: verify_payment_srv_def settle_verified sig) (simp add: b falsy_def)
  have f002: "status (stored_orders (snd (verify_payment_p002 e b w)) ! i) = ''payment_failed''"
    if "s \<noteq> h" "findIndex (matches_strict b) (stored_orders w) = Some i" for i
  proof -
    have "i < length (stored_orders w)"
      using that(2) by (simp add: findIndex_Some_iff)
    then show ?thesis
      using that by (simp add: verify_p002_orders sig)
  qed
  have fset: "status (stored_orders (snd (settle e now b w)) ! i) = ''payment_failed''"
    if "s \<noteq> h" "findIndex (matches_coerced b) (stored_orders w) = Some i" for i
  proof -
    have "i < length (stored_orders w)"
      using that(2) by (simp add: findIndex_Some_iff)
    then show ?thesis
      using that by (simp add: settle_orders sig)
  qed
  have f000: "status (stored_orders (snd (verify_payment_p000 e now b w)) ! i) = ''payment_failed''"
    if "s \<noteq> h" "oid \<noteq> [] \<and> pid \<noteq> [] \<and> s \<noteq> [] \<and> RZP_KEY_SECRET e \<noteq> []"
       "findIndex (matches_coerced b) (stored_orders w) = Some i" for i
  proof -
    have "verify_payment_p000 e now b w = settle e now b w"
      using that(2) by (simp add: verify_payment_p000_def b falsy_def)
    then show ?thesis using fset that by simp
  qed
  have fsrv: "status (stored_orders (snd (verify_payment_srv e now b w)) ! i) = ''payment_failed''"
    if "s \<noteq> h" "oid \<noteq> [] \<and> pid \<noteq> [] \<and> s \<noteq> []"
       "findIndex (matches_coerced b) (stored_orders w) = Some i" for i
  proof -
    have "verify_payment_srv e now b w = settle e now b w"
      using that(2) by (simp add: verify_payment_srv_def b falsy_def)
    then show ?thesis using fset that by simp
  qed
  show ?thesis
    using p002 p000 srv f002 f000 fsrv by blast
qed


lemma sample_stored [simp]: "stored_orders sample_world = [sample_order]"
  by (simp add: sample_world_def stored_orders_def)

theorem verified_iff_signature_is_hmac_witness:
  "verified_of (fst (verify_payment_p000 sample_env 7
      \<lparr>body_razorpay_order_id = Some ''order_abc'', body_razorpay_payment_id = Some ''pay_123'',
       body_razorpay_signature = Some ''s3cret:order_abc|pay_123'', body_receipt = None\<rparr>
      sample_world)) = Some True \<and>
   verified_of (fst (verify_payment_p000 sample_env 7
      \<lparr>body_razorpay_order_id = Some ''order_abc'', body_razorpay_payment_id = Some ''pay_123'',
       body_razorpay_signature = Some ''s3cret:order_abc|pay_124'', body_receipt = None\<rparr>
      sample_world)) = Some False \<and>
   status (stored_orders (snd (verify_payment_p000 sample_env 7
      \<lparr>body_razorpay_order_id = Some ''order_abc'', body_razorpay_payment_id = Some ''pay_123'',
       body_razorpay_signature = Some ''s3cret:order_abc|pay_124'', body_receipt = None\<rparr>
      sample_world)) ! 0) = ''payment_failed'' \<and>
   status (stored_orders (snd (verify_payment_p002 sample_env
      \<lparr>body_razorpay_order_id = Some ''order_abc'', body_razorpay_payment_id = Some ''pay_123'',
       body_razorpay_signature = Some ''s3cret:order_abc|pay_124'', body_receipt = None\<rparr>
      sample_world)) ! 0) = ''payment_failed''"
  using verified_iff_signature_is_hmac
          [where oid = "''order_abc''" and pid = "''pay_123''"
             and s = "''s3cret:order_abc|pay_123''" and r = None and e = sample_env
             and w = sample_world and now = 7, OF refl refl]
        verified_iff_signature_is_hmac
          [where oid = "''order_abc''" and pid = "''pay_123''"
             and s = "''s3cret:order_abc|pay_124''" and r = None and e = sample_env
             and w = sample_world and now = 7, OF refl refl]
  by (simp add: sample_env_def sample_order_def matches_coerced_def matches_strict_def)


section \<open>Verifying twice\<close>

lemma findIndex_update:
  "i < length xs \<Longrightarrow> P y = P (xs ! i) \<Longrightarrow> findIndex P (xs[i := y]) = findIndex P xs"
proof (induction xs arbitrary: i)
  case Nil
  then show ?case by simp
next
  case (Cons x xs)
  then show ?case by (cases i) auto
qed

lemma matches_coerced_mark [simp]:
  "matches_coerced b (mark_verified b' t ord) = matches_coerced b ord"
  by (simp add: matches_coerced_def mark_verified_def)

lemma mark_verified_twice:
  "mark_verified b t2 (mark_verified b t1 ord) = (mark_verified b t1 ord)\<lparr>paid_at := Some t2\<rparr>"
  by (simp add: mark_verified_def)

lemma settle_twice:
  assumes ok: "body_razorpay_signature b = Some (generated_signature e b)"
  shows "stored_orders (snd (settle e t2 b (snd (settle e t1 b w)))) =
     (case findIndex (matches_coerced b) (stored_orders w) of
        None \<Rightarrow> stored_orders w
      | Some i \<Rightarrow> (stored_orders w)[i := (mark_verified b t1 (stored_orders w ! i))\<lparr>paid_at := Some t2\<rparr>])"
proof (cases "findIndex (matches_coerced b) (stored_orders w)")
  case None
  then show ?thesis by (simp add: settle_orders)
next
  case (Some i)
  then have i: "i < length (stored_orders w)"
    by (simp add: findIndex_Some_iff)
  have one: "stored_orders (snd (settle e t1 b w)) =
      (stored_orders w)[i := mark_verified b t1 (stored_orders w ! i)]"
    using Some ok by (simp add: settle_orders)
  have idx: "findIndex (matches_coerced b) (stored_orders (snd (settle e t1 b w))) = Some i"
    using Some i by (simp add: one findIndex_update)
  show ?thesis
    using Some i idx ok by (simp add: settle_orders [of e t2] one mark_verified_twice)
qed

lemma settle_once:
  assumes ok: "body_razorpay_signature b = Some (generated_signature e b)"
  shows "stored_orders (snd (settle e t1 b w)) =
     (case findIndex (matches_coerced b) (stored_orders w) of
        None \<Rightarrow> stored_orders w
      | Some i \<Rightarrow> (stored_orders w)[i := mark_verified b t1 (stored_orders w ! i)])"
  using ok by (simp add: settle_orders split: option.splits)

text \<open>
  C4. In \<^verbatim>\<open>server.js\<close> and in \<^verbatim>\<open>part_000\<close> (there with a configured secret), a
  request whose three gateway fields are supplied and whose signature verifies is
  answered \<open>verified = true\<close> both times it is sent. The matched order is stored as
  \<open>paid\<close> with the supplied payment id and signature after the first call and after the
  second; the second call changes nothing in the store but that order's \<open>paid_at\<close>.
  When no order matches, neither call changes the stored orders.
\<close>

theorem verify_payment_idempotent:
  assumes b: "b = \<lparr>body_razorpay_order_id = Some oid, body_razorpay_payment_id = Some pid,
                    body_razorpay_signature = Some s, body_receipt = r\<rparr>"
    and valid: "oid \<noteq> []" "pid \<noteq> []" "s \<noteq> []"
    and sig: "s = hmac_sha256_hex e (RZP_KEY_SECRET e) (oid @ ''|'' @ pid)"
    and v: "verify = verify_payment_srv \<or> (verify = verify_payment_p000 \<and> RZP_KEY_SECRET e \<noteq> [])"
    and ra: "ra = verify e ta b w"
    and rb: "rb = verify e tb b (snd ra)"
  shows "verified_of (fst ra) = Some True \<and> verified_of (fst rb) = Some True \<and>
    (findIndex (matches_coerced b) (stored_orders w) = None \<longrightarrow>
       stored_orders (snd ra) = stored_orders w \<and> stored_orders (snd rb) = stored_orders w) \<and>
    (\<forall>i. findIndex (matches_coerced b) (stored_orders w) = Some i \<longrightarrow>
       status (stored_orders (snd ra) ! i) = ''paid'' \<and>
       status (stored_orders (snd rb) ! i) = ''paid'' \<and>
       razorpay_signature (stored_orders (snd ra) ! i) = Some s \<and>
       razorpay_signature (stored_orders (snd rb) ! i) = Some s \<and>
       razorpay_payment_id (stored_orders (snd ra) ! i) = Some pid \<and>
       razorpay_payment_id (stored_orders (snd rb) ! i) = Some pid \<and>
       stored_orders (snd rb) =
         (stored_orders (snd ra))[i := (stored_orders (snd ra) ! i)\<lparr>paid_at := Some tb\<rparr>])"
proof -
  have g: "generated_signature e b = s"
    by (simp add: generated_signature_def b sig String_js_def)
  have ok: "body_razorpay_signature b = Some (generated_signature e b)"
    by (simp add: g) (simp add: b)
  have nf: "\<not> (falsy (body_razorpay_order_id b) \<or> falsy (body_razorpay_payment_id b)
               \<or> falsy (body_razorpay_signature b))"
    using valid by (simp add: b falsy_def)
  have eq: "verify e t b w' = settle e t b w'" for t w'
    using v nf by (auto simp: verify_payment_srv_def verify_payment_p000_def)
  have ea: "ra = settle e ta b w" by (simp add: ra eq)
  have eb: "rb = settle e tb b (snd (settle e ta b w))" by (simp add: rb ea eq)
  have v1: "verified_of (fst ra) = Some True" by (simp add: ea settle_verified ok)
  have v2: "verified_of (fst rb) = Some True" by (simp add: eb settle_verified ok)
  have none: "stored_orders (snd ra) = stored_orders w \<and> stored_orders (snd rb) = stored_orders w"
    if "findIndex (matches_coerced b) (stored_orders w) = None"
    using that by (simp add: ea eb settle_once [OF ok] settle_twice [OF ok])
  have some: "status (stored_orders (snd ra) ! i) = ''paid'' \<and>
       status (stored_orders (snd rb) ! i) = ''paid'' \<and>
       razorpay_signature (stored_orders (snd ra) ! i) = Some s \<and>
       razorpay_signature (stored_orders (snd rb) ! i) = Some s \<and>
       razorpay_payment_id (stored_orders (snd ra) ! i) = Some pid \<and>
       razorpay_payment_id (stored_orders (snd rb) ! i) = Some pid \<and>
       stored_orders (snd rb) =
         (stored_orders (snd ra))[i := (stored_orders (snd ra) ! i)\<lparr>paid_at := Some tb\<rparr>]"
    if f: "findIndex (matches_coerced b) (stored_orders w) = Some i" for i
  proof -
    have i: "i < length (stored_orders w)"
      using f by (simp add: findIndex_Some_iff)
    have o1: "stored_orders (snd ra) = (stored_orders w)[i := mark_verified b ta (stored_orders w ! i)]"
      using f by (simp add: ea settle_once [OF ok])
    have o2: "stored_orders (snd rb) =
        (stored_orders w)[i := (mark_verified b ta (stored_orders w ! i))\<lparr>paid_at := Some tb\<rparr>]"
      using f by (simp add: eb settle_twice [OF ok])
    show ?thesis
      using i by (simp add: o1 o2 mark_verified_def) (simp add: b)
  qed
  show ?thesis
    using v1 v2 none some by blast
qed


theorem verify_payment_idempotent_witness:
  "verified_of (fst (verify_payment_p000 sample_env 7 sample_body sample_world)) = Some True \<and>
   verified_of (fst (verify_payment_p000 sample_env 8 sample_body
      (snd (verify_payment_p000 sample_env 7 sample_body sample_world)))) = Some True \<and>
   status (stored_orders (snd (verify_payment_p000 sample_env 8 sample_body
      (snd (verify_payment_p000 sample_env 7 sample_body sample_world)))) ! 0) = ''paid'' \<and>
   razorpay_signature (stored_orders
      (snd (verify_payment_p000 sample_env 7 sample_body sample_world)) ! 0) =
     Some ''s3cret:order_abc|pay_123'' \<and>
   razorpay_signature (stored_orders (snd (verify_payment_p000 sample_env 8 sample_body
      (snd (verify_payment_p000 sample_env 7 sample_body sample_world)))) ! 0) =
     Some ''s3cret:order_abc|pay_123''"
proof -
  have sig: "''s3cret:order_abc|pay_123'' =
      hmac_sha256_hex sample_env (RZP_KEY_SECRET sample_env) (''order_abc'' @ ''|'' @ ''pay_123'')"
    by (simp add: sample_env_def)
  have v: "verify_payment_p000 = verify_payment_srv \<or>
      (verify_payment_p000 = verify_payment_p000 \<and> RZP_KEY_SECRET sample_env \<noteq> [])"
    by (simp add: sample_env_def)
  have f: "findIndex (matches_coerced sample_body) (stored_orders sample_world) = Some 0"
    by (simp add: sample_body_def sample_order_def matches_coerced_def)
  note t = verify_payment_idempotent
          [where verify = verify_payment_p000 and e = sample_env and ta = 7 and tb = 8
             and w = sample_world and b = sample_body and oid = "''order_abc''"
             and pid = "''pay_123''" and s = "''s3cret:order_abc|pay_123''" and r = None,
           OF sample_body_def _ _ _ sig v refl refl]
  show ?thesis
    using t f by blast
qed


section \<open>Deleting, then updating\<close>

lemma users_readDB_p002 [simp]:
  "disk (snd (readDB_p002 w)) = disk w" "trace (snd (readDB_p002 w)) = trace w @ [File_read]"
  by (simp_all add: readDB_p002_def)

lemma delete_orders:
  "stored_orders (snd (delete_order_p002 key w)) =
     filter (\<lambda>ord. \<not> key_matches key ord) (stored_orders w)"
proof -
  obtain d w1 where r: "readDB_p002 w = (d, w1)" by (cases "readDB_p002 w")
  have os: "or_empty (orders d) = stored_orders w"
    using readDB_p002_orders [of w] r by simp
  show ?thesis
    by (simp add: delete_order_p002_def Let_def r os key_matches_def)
qed

lemma update_status_none:
  "findIndex (key_matches key) (stored_orders w) = None \<Longrightarrow>
   fst (update_status_p002 key st et w) = Update_failed 404 ''Not found''"
proof -
  assume n: "findIndex (key_matches key) (stored_orders w) = None"
  obtain d w1 where r: "readDB_p002 w = (d, w1)" by (cases "readDB_p002 w")
  have os: "or_empty (orders d) = stored_orders w"
    using readDB_p002_orders [of w] r by simp
  show ?thesis
    by (simp add: update_status_p002_def Let_def r os n)
qed

text \<open>
  C9. \<^verbatim>\<open>DELETE /delete-order/:id\<close> answers success for every key and every store, and
  leaves exactly the orders whose \<open>razorpay_order_id\<close> and \<open>receipt\<close> both differ from
  the key; \<^verbatim>\<open>PATCH /update-status/:id\<close> with the same key on the resulting store
  answers 404 \<open>Not found\<close>.
\<close>

theorem delete_then_update_not_found:
  "fst (delete_order_p002 key w) = Deleted \<and>
   stored_orders (snd (delete_order_p002 key w)) =
     filter (\<lambda>ord. \<not> key_matches key ord) (stored_orders w) \<and>
   fst (update_status_p002 key st et (snd (delete_order_p002 key w))) =
     Update_failed 404 ''Not found''"
proof -
  have "findIndex (key_matches key) (stored_orders (snd (delete_order_p002 key w))) = None"
    by (simp add: delete_orders findIndex_None_iff)
  then show ?thesis
    by (simp add: update_status_none delete_orders) (simp add: delete_order_p002_def Let_def split: prod.splits)
qed

section \<open>Order lookup with an absent receipt\<close>

text \<open>
  The lookup of \<^verbatim>\<open>server.js\<close> and \<^verbatim>\<open>part_000\<close>. When a receipt is supplied and
  the stored orders have receipts, the coerced comparison is plain equality; the
  selected order is the first match in insertion order and no other order changes; and
  without a match the response carries the verification result with a null order and
  nothing is written.
\<close>

lemma String_js_eq_iff:
  "String_js x = String_js y \<longleftrightarrow>
     x = y \<or> (x = None \<and> y = Some ''undefined'') \<or> (x = Some ''undefined'' \<and> y = None)"
  by (auto simp: String_js_def split: option.splits)

lemma matches_coerced_supplied:
  "body_receipt b = Some r \<Longrightarrow> receipt ord \<noteq> None \<Longrightarrow>
   matches_coerced b ord \<longleftrightarrow>
     razorpay_order_id ord = body_razorpay_order_id b \<or> receipt ord = Some r"
  by (auto simp: matches_coerced_def String_js_eq_iff)

lemma settle_no_match:
  assumes "findIndex (matches_coerced b) (stored_orders w) = None"
  shows "settle e now b w =
     (Verify_result (body_razorpay_signature b = Some (generated_signature e b)) (- 1) None,
      w\<lparr>trace := trace w @ [File_read]\<rparr>)"
proof -
  obtain d w1 where r: "readDB_p000 w = (d, w1)" by (cases "readDB_p000 w")
  have os: "or_empty (orders d) = stored_orders w"
    using readDB_p000_orders [of w] r by simp
  have w1: "w1 = w\<lparr>trace := trace w @ [File_read]\<rparr>"
    using r by (simp add: readDB_p000_def)
  show ?thesis
    using assms by (auto simp: settle_def Let_def r os w1 index_js_def)
qed

lemma settle_first_match:
  assumes "findIndex (matches_coerced b) (stored_orders w) = Some i"
  shows "i < length (stored_orders w)"
    and "matches_coerced b (stored_orders w ! i)"
    and "\<forall>j<i. \<not> matches_coerced b (stored_orders w ! j)"
    and "length (stored_orders (snd (settle e now b w))) = length (stored_orders w)"
    and "\<forall>j. j \<noteq> i \<longrightarrow> stored_orders (snd (settle e now b w)) ! j = stored_orders w ! j"
proof -
  show "i < length (stored_orders w)" "matches_coerced b (stored_orders w ! i)"
    "\<forall>j<i. \<not> matches_coerced b (stored_orders w ! j)"
    using assms by (simp_all add: findIndex_Some_iff)
  show "length (stored_orders (snd (settle e now b w))) = length (stored_orders w)"
    "\<forall>j. j \<noteq> i \<longrightarrow> stored_orders (snd (settle e now b w)) ! j = stored_orders w ! j"
    using assms by (simp_all add: settle_orders)
qed

lemma receipt_undefined_orders:
  "stored_orders receipt_undefined_world =
     [new_order_p000 sample_clock (sample_create_body\<lparr>co_receipt := Some ''undefined''\<rparr>) 500
        ''undefined''
        \<lparr>rzp_id = ''order_abc'', rzp_amount = 50000, rzp_currency = ''INR'',
         rzp_receipt = Some ''undefined''\<rparr>]"
  by (simp add: receipt_undefined_world_def create_order_p000_def gateway_options_def Let_def split_beta
      sample_env_def sample_create_body_def currency_or_INR_def or_else_def
      stored_orders_def readDB_p000_def writeDB_def)

text \<open>
  C2. \<^verbatim>\<open>server.js\<close> and \<^verbatim>\<open>part_000\<close> compare \<^verbatim>\<open>String(o.receipt)\<close> with
  \<^verbatim>\<open>String(receipt)\<close>, and \<^verbatim>\<open>String(undefined)\<close> is the text \<open>undefined\<close>.
  Starting from no document, \<^verbatim>\<open>/create-order\<close> with the receipt \<open>undefined\<close>
  stores an order with gateway id \<open>order_abc\<close>. A \<^verbatim>\<open>/verify-payment\<close> for the
  gateway id \<open>order_B\<close> that supplies no receipt then selects that order, although
  neither its gateway id nor its receipt equals anything supplied, and marks it paid.
\<close>

theorem absent_receipt_selects_unrelated_order:
  "map razorpay_order_id (stored_orders receipt_undefined_world) = [Some ''order_abc''] \<and>
   map receipt (stored_orders receipt_undefined_world) = [Some ''undefined''] \<and>
   map status (stored_orders receipt_undefined_world) = [''created''] \<and>
   body_razorpay_order_id other_order_body = Some ''order_B'' \<and>
   body_receipt other_order_body = None \<and>
   fst (verify_payment_p000 sample_env 7 other_order_body receipt_undefined_world) =
     Verify_result True 0
       (Some (mark_verified other_order_body 7 (stored_orders receipt_undefined_world ! 0))) \<and>
   map status (stored_orders (snd (verify_payment_p000 sample_env 7 other_order_body
      receipt_undefined_world))) = [''paid''] \<and>
   map status (stored_orders (snd (verify_payment_srv sample_env 7 other_order_body
      receipt_undefined_world))) = [''paid'']"
proof -
  have m: "findIndex (matches_coerced other_order_body) (stored_orders receipt_undefined_world) = Some 0"
    by (simp add: receipt_undefined_orders new_order_p000_def matches_coerced_def
        other_order_body_def String_js_def)
  have ok: "body_razorpay_signature other_order_body =
      Some (generated_signature sample_env other_order_body)"
    by (simp add: generated_signature_def other_order_body_def sample_env_def String_js_def)
  have g: "verify_payment_p000 sample_env 7 other_order_body receipt_undefined_world =
      settle sample_env 7 other_order_body receipt_undefined_world"
    "verify_payment_srv sample_env 7 other_order_body receipt_undefined_world =
      settle sample_env 7 other_order_body receipt_undefined_world"
    by (simp_all add: verify_payment_p000_def verify_payment_srv_def other_order_body_def
        falsy_def sample_env_def)
  have o: "stored_orders (snd (settle sample_env 7 other_order_body receipt_undefined_world)) =
      (stored_orders receipt_undefined_world)
        [0 := mark_verified other_order_body 7 (stored_orders receipt_undefined_world ! 0)]"
    using m ok by (simp add: settle_orders)
  have f: "fst (settle sample_env 7 other_order_body receipt_undefined_world) =
     Verify_result True 0
       (Some (mark_verified other_order_body 7 (stored_orders receipt_undefined_world ! 0)))"
    using m ok by (simp add: settle_def Let_def split_beta index_js_def)
      (simp add: receipt_undefined_orders)
  show ?thesis
    by (simp add: g o f) (simp add: receipt_undefined_orders new_order_p000_def
        other_order_body_def mark_verified_def)
qed

section \<open>What \<^verbatim>\<open>part_002\<close> stores on verification\<close>

text \<open>
  By contrast, \<^verbatim>\<open>server.js\<close> and \<^verbatim>\<open>part_000\<close> keep the evidence on paid orders:
  if every stored order that is \<open>paid\<close> carries a payment id and a signature that is
  the HMAC of some order id and that payment id, the same holds after
  \<^verbatim>\<open>/verify-payment\<close> and after \<^verbatim>\<open>/create-order\<close>.
\<close>

lemma verify_p000_keeps_paid_evidence:
  assumes inv: "\<forall>ord \<in> set (stored_orders w). status ord = ''paid'' \<longrightarrow>
      (\<exists>oid pid. razorpay_payment_id ord = Some pid \<and>
         razorpay_signature ord =
           Some (hmac_sha256_hex e (RZP_KEY_SECRET e) (oid @ ''|'' @ pid)))"
    and v: "verify = verify_payment_srv \<or> verify = verify_payment_p000"
  shows "\<forall>ord \<in> set (stored_orders (snd (verify e now b w))). status ord = ''paid'' \<longrightarrow>
      (\<exists>oid pid. razorpay_payment_id ord = Some pid \<and>
         razorpay_signature ord =
           Some (hmac_sha256_hex e (RZP_KEY_SECRET e) (oid @ ''|'' @ pid)))"
proof (cases "verify e now b w = settle e now b w \<and>
    \<not> falsy (body_razorpay_order_id b) \<and> \<not> falsy (body_razorpay_payment_id b)")
  case False
  then have "snd (verify e now b w) = w"
    using v by (auto simp: verify_payment_srv_def verify_payment_p000_def)
  then show ?thesis using inv by simp
next
  case True
  let ?P = "\<lambda>ord. status ord = ''paid'' \<longrightarrow>
      (\<exists>oid pid. razorpay_payment_id ord = Some pid \<and>
         razorpay_signature ord =
           Some (hmac_sha256_hex e (RZP_KEY_SECRET e) (oid @ ''|'' @ pid)))"
  obtain oid pid where b: "body_razorpay_order_id b = Some oid" "body_razorpay_payment_id b = Some pid"
    using True by (auto simp: falsy_def split: option.splits)
  have g: "generated_signature e b = hmac_sha256_hex e (RZP_KEY_SECRET e) (oid @ ''|'' @ pid)"
    by (simp add: generated_signature_def b String_js_def)
  show ?thesis
  proof (cases "findIndex (matches_coerced b) (stored_orders w)")
    case None
    then show ?thesis using True inv by (simp add: settle_orders)
  next
    case (Some i)
    have new: "?P (if body_razorpay_signature b = Some (generated_signature e b)
              then mark_verified b now (stored_orders w ! i)
              else (stored_orders w ! i)\<lparr>status := ''payment_failed''\<rparr>)"
      using b g by (auto simp: mark_verified_def)
    have "?P ord" if "ord \<in> set ((stored_orders w)[i := x])" "?P x" for ord x
    proof -
      have "ord = x \<or> ord \<in> set (stored_orders w)"
        using that(1) set_update_subset_insert [of "stored_orders w" i x] by blast
      then show ?thesis using that(2) inv by blast
    qed
    with new have "\<forall>ord \<in> set ((stored_orders w)[i := (if body_razorpay_signature b = Some (generated_signature e b)
              then mark_verified b now (stored_orders w ! i)
              else (stored_orders w ! i)\<lparr>status := ''payment_failed''\<rparr>)]). ?P ord"
      by blast
    then show ?thesis using True Some by (simp add: settle_orders)
  qed
qed

lemma stored_orders_trace [simp]: "stored_orders (w\<lparr>trace := t\<rparr>) = stored_orders w"
  by (simp add: stored_orders_def)

lemma create_order_p000_orders:
  "stored_orders (snd (create_order_p000 e clk b w)) = stored_orders w \<or>
   (\<exists>a rc ord. stored_orders (snd (create_order_p000 e clk b w)) =
      stored_orders w @ [new_order_p000 clk b a rc ord])"
proof (cases "co_amount b")
  case None
  then show ?thesis by (simp add: create_order_p000_def)
next
  case (Some a)
  show ?thesis
  proof (cases "razorpay e")
    case None
    then show ?thesis using Some by (simp add: create_order_p000_def)
  next
    case (Some create)
    show ?thesis
    proof (cases "create (gateway_options e clk b a)")
      case (Inl err)
      then show ?thesis
        using \<open>co_amount b = Some a\<close> Some by (simp add: create_order_p000_def Let_def)
    next
      case (Inr ord)
      then show ?thesis
        using \<open>co_amount b = Some a\<close> Some
        by (auto simp: create_order_p000_def Let_def split_beta)
    qed
  qed
qed

lemma create_order_p000_keeps_paid_evidence:
  assumes inv: "\<forall>ord \<in> set (stored_orders w). status ord = ''paid'' \<longrightarrow> Q ord"
  shows "\<forall>ord \<in> set (stored_orders (snd (create_order_p000 e clk b w))).
           status ord = ''paid'' \<longrightarrow> Q ord"
proof -
  have "status (new_order_p000 clk b a rc ord) \<noteq> ''paid''" for a rc ord
    by (simp add: new_order_p000_def)
  then show ?thesis
    using inv create_order_p000_orders [of e clk b w] by auto
qed

text \<open>
  C3. In \<^verbatim>\<open>part_002\<close> a failed verification stores the supplied payment id on the
  order it marks \<open>payment_failed\<close>; a successful one marks the order \<open>paid\<close> and stores
  no signature; and \<^verbatim>\<open>/update-status\<close> sets \<open>paid\<close> on an order that has neither
  field.
\<close>

theorem p002_stores_payment_id_without_verification:
  "status (stored_orders (snd (verify_payment_p002 sample_env sample_failed_body sample_world)) ! 0)
     = ''payment_failed'' \<and>
   razorpay_payment_id
     (stored_orders (snd (verify_payment_p002 sample_env sample_failed_body sample_world)) ! 0)
     = Some ''pay_123'' \<and>
   fst (verify_payment_p002 sample_env sample_failed_body sample_world) = Verify_only False \<and>
   fst (verify_payment_p002 sample_env sample_body sample_world) = Verify_only True \<and>
   status (stored_orders (snd (verify_payment_p002 sample_env sample_body sample_world)) ! 0)
     = ''paid'' \<and>
   razorpay_signature
     (stored_orders (snd (verify_payment_p002 sample_env sample_body sample_world)) ! 0) = None \<and>
   status (stored_orders (snd (update_status_p002 ''order_abc'' (Some ''paid'') None
      sample_world)) ! 0) = ''paid'' \<and>
   razorpay_payment_id (stored_orders (snd (update_status_p002 ''order_abc'' (Some ''paid'') None
      sample_world)) ! 0) = None"
  by (simp add: verify_payment_p002_def update_status_p002_def Let_def
      readDB_p002_def writeDB_def stored_orders_def sample_world_def
      sample_failed_body_def sample_body_def sample_env_def sample_order_def
      matches_strict_def key_matches_def generated_signature_def String_js_def falsy_def)


section \<open>Creating an order\<close>

lemma store_order_p002_result:
  "store_order_p002 e clk b a rc ro w =
     (Created (rzp_id ro) (rzp_amount ro) (rzp_currency ro) rc (RZP_KEY_ID e),
      writeDB ((fst (readDB_p002 w))\<lparr>orders :=
          Some (stored_orders w @ [new_order_p002 e clk b a rc ro])\<rparr>) (snd (readDB_p002 w)))"
proof -
  obtain d w1 where r: "readDB_p002 w = (d, w1)" by (cases "readDB_p002 w")
  have os: "or_empty (orders d) = stored_orders w"
    using readDB_p002_orders [of w] r by simp
  show ?thesis
    by (simp add: store_order_p002_def Let_def r os)
qed

lemma store_order_p002_orders:
  "stored_orders (snd (store_order_p002 e clk b a rc ro w)) =
     stored_orders w @ [new_order_p002 e clk b a rc ro]"
  by (simp add: store_order_p002_result)

lemma store_order_p002_trace:
  "trace (snd (store_order_p002 e clk b a rc ro w)) = trace w @ [File_read, File_write]"
  by (simp add: store_order_p002_result writeDB_def)

lemma store_order_p002_fst:
  "fst (store_order_p002 e clk b a rc ro w) =
     Created (rzp_id ro) (rzp_amount ro) (rzp_currency ro) rc (RZP_KEY_ID e)"
  by (simp add: store_order_p002_result)

lemma finalCart_env: "finalCart (e\<lparr>razorpay := g\<rparr>) b = finalCart e b"
  by (simp add: finalCart_def Let_def split: option.splits)

lemma store_order_p002_env:
  "store_order_p002 (e\<lparr>razorpay := g\<rparr>) clk b a rc ro w = store_order_p002 e clk b a rc ro w"
  by (simp add: store_order_p002_def new_order_p002_def finalCart_env split: prod.splits)

lemma create_order_p002_cod:
  assumes "co_cod b" "co_amount b = Some a" "\<not> falsy_number e a"
  shows "create_order_p002 e clk b w =
     store_order_p002 e clk b a (or_else (co_receipt b) (''rcpt_'' @ digits (now_receipt clk)))
       \<lparr>rzp_id = ''cod_'' @ digits (now_cod clk), rzp_amount = round_times_100 e a,
        rzp_currency = currency_or_INR (co_currency b), rzp_receipt = None\<rparr> w"
  using assms by (simp add: create_order_p002_def Let_def)

text \<open>
  C7. In \<^verbatim>\<open>part_002\<close>, a request with a truthy \<^verbatim>\<open>cod\<close> and a truthy amount is
  answered with the local id \<open>cod_\<close> followed by the digits of the clock reading.
  The handler reads the file and writes it, and performs no gateway call: its trace
  gains exactly a read and a write, and the outcome is the same whatever the gateway
  client is. The stored orders are the previous ones followed by one new order with
  status \<open>created\<close> and that id.
\<close>

theorem cod_order_is_created_without_gateway:
  assumes cod: "co_cod b" and amt: "co_amount b = Some a" "\<not> falsy_number e a"
    and res: "res = create_order_p002 e clk b w"
  shows "fst res =
       Created (''cod_'' @ digits (now_cod clk)) (round_times_100 e a)
         (currency_or_INR (co_currency b))
         (or_else (co_receipt b) (''rcpt_'' @ digits (now_receipt clk))) (RZP_KEY_ID e) \<and>
     trace (snd res) = trace w @ [File_read, File_write] \<and>
     create_order_p002 (e\<lparr>razorpay := g\<rparr>) clk b w = res \<and>
     (\<exists>ord. stored_orders (snd res) = stored_orders w @ [ord] \<and> status ord = ''created'' \<and>
        razorpay_order_id ord = Some (''cod_'' @ digits (now_cod clk)) \<and>
        amount_paise ord = round_times_100 e a)"
proof -
  let ?ro = "\<lparr>rzp_id = ''cod_'' @ digits (now_cod clk), rzp_amount = round_times_100 e a,
        rzp_currency = currency_or_INR (co_currency b), rzp_receipt = None\<rparr>"
  let ?rc = "or_else (co_receipt b) (''rcpt_'' @ digits (now_receipt clk))"
  have r: "res = store_order_p002 e clk b a ?rc ?ro w"
    by (simp add: res create_order_p002_cod [OF cod amt])
  have amt': "\<not> falsy_number (e\<lparr>razorpay := g\<rparr>) a"
    using amt by simp
  have g: "create_order_p002 (e\<lparr>razorpay := g\<rparr>) clk b w = res"
    using create_order_p002_cod [OF cod amt(1) amt', of clk w]
    by (simp add: r store_order_p002_env)
  have o: "stored_orders (snd res) = stored_orders w @ [new_order_p002 e clk b a ?rc ?ro]"
    by (simp add: r store_order_p002_orders)
  have "status (new_order_p002 e clk b a ?rc ?ro) = ''created'' \<and>
        razorpay_order_id (new_order_p002 e clk b a ?rc ?ro) = Some (''cod_'' @ digits (now_cod clk)) \<and>
        amount_paise (new_order_p002 e clk b a ?rc ?ro) = round_times_100 e a"
    by (simp add: new_order_p002_def)
  with o have ex: "\<exists>ord. stored_orders (snd res) = stored_orders w @ [ord] \<and> status ord = ''created'' \<and>
        razorpay_order_id ord = Some (''cod_'' @ digits (now_cod clk)) \<and>
        amount_paise ord = round_times_100 e a"
    by blast
  show ?thesis
    using ex g by (simp add: r store_order_p002_fst store_order_p002_trace)
qed


theorem cod_order_is_created_without_gateway_witness:
  "fst (create_order_p002 sample_env sample_clock (sample_create_body\<lparr>co_cod := True\<rparr>)
      sample_world) =
     Created ''cod_1700000000002'' 50000 ''INR'' ''r2'' ''rzp_test_key'' \<and>
   trace (snd (create_order_p002 sample_env sample_clock (sample_create_body\<lparr>co_cod := True\<rparr>)
      sample_world)) = [File_read, File_write]"
proof -
  have a: "co_amount (sample_create_body\<lparr>co_cod := True\<rparr>) = Some 500"
    by (simp add: sample_create_body_def)
  have c: "co_cod (sample_create_body\<lparr>co_cod := True\<rparr>)"
    by simp
  have n: "\<not> falsy_number sample_env (500::nat)"
    by (simp add: sample_env_def)
  show ?thesis
    using cod_order_is_created_without_gateway [OF c a n refl, of sample_clock sample_world]
    by (simp add: sample_env_def sample_clock_def sample_create_body_def sample_world_def
        currency_or_INR_def or_else_def digits.simps)
qed

section \<open>Failed creation\<close>

lemma create_order_missing_amount:
  assumes "co_amount b = None \<or> (\<exists>a. co_amount b = Some a \<and> falsy_number e a)"
  shows "create_order_p000 e clk b w = (Create_failed 400 ''Missing amount'' None, w)"
    and "create_order_p002 e clk b w = (Create_failed 400 ''Missing amount'' None, w)"
  using assms by (auto simp: create_order_p000_def create_order_p002_def)

lemma create_order_p000_unconfigured:
  assumes "co_amount b = Some a" "\<not> falsy_number e a" "razorpay e = None"
  shows "create_order_p000 e clk b w = (Create_failed 500 ''Razorpay not configured'' None, w)"
  using assms by (simp add: create_order_p000_def)

lemma create_order_p000_rejected:
  assumes "co_amount b = Some a" "\<not> falsy_number e a" "razorpay e = Some create"
    and "create (gateway_options e clk b a) = Inl err"
  shows "create_order_p000 e clk b w =
      (Create_failed 500 ''Failed to create order'' (Some err),
       w\<lparr>trace := trace w @ [Gateway_call (gateway_options e clk b a)]\<rparr>)"
  using assms by (simp add: create_order_p000_def Let_def)

lemma create_order_p002_rejected:
  assumes "co_amount b = Some a" "\<not> falsy_number e a" "razorpay e = Some create"
    and "create (gateway_options e clk b a) = Inl err" and "\<not> co_cod b"
  shows "create_order_p002 e clk b w =
      (Create_failed 500 ''Failed to create order'' None,
       w\<lparr>trace := trace w @ [Gateway_call (gateway_options e clk b a)]\<rparr>)"
  using assms by (simp add: create_order_p002_def Let_def)

text \<open>
  C5. A request without a truthy amount is rejected with 400 and the world is left as
  it was: no read, no write, no gateway call. With an amount, \<^verbatim>\<open>part_000\<close> answers
  500 \<open>Razorpay not configured\<close> and leaves the world as it was when its client was
  not constructed; and when the gateway call of this very request fails, whatever the
  gateway would answer to other requests, \<^verbatim>\<open>part_000\<close> and \<^verbatim>\<open>part_002\<close> answer 500
  \<open>Failed to create order\<close>, the persisted document is the one before the request,
  and the trace gains the gateway call and nothing else. In \<^verbatim>\<open>part_002\<close> both keys
  fall back to non-empty literals, so its client is always constructed and a wrong key
  shows as a failing gateway call; a request with the \<^verbatim>\<open>cod\<close> flag makes no gateway
  call at all.
\<close>

theorem create_order_failure_persists_nothing:
  "((co_amount b = None \<or> (\<exists>a. co_amount b = Some a \<and> falsy_number e a)) \<longrightarrow>
      create_order_p000 e clk b w = (Create_failed 400 ''Missing amount'' None, w) \<and>
      create_order_p002 e clk b w = (Create_failed 400 ''Missing amount'' None, w)) \<and>
   (co_amount b = Some a \<and> \<not> falsy_number e a \<longrightarrow>
      (razorpay e = None \<longrightarrow>
         create_order_p000 e clk b w = (Create_failed 500 ''Razorpay not configured'' None, w)) \<and>
      (razorpay e = Some create \<and> create (gateway_options e clk b a) = Inl err \<longrightarrow>
         create_order_p000 e clk b w =
           (Create_failed 500 ''Failed to create order'' (Some err),
            w\<lparr>trace := trace w @ [Gateway_call (gateway_options e clk b a)]\<rparr>) \<and>
         disk (snd (create_order_p000 e clk b w)) = disk w \<and>
         stored_orders (snd (create_order_p000 e clk b w)) = stored_orders w \<and>
         (\<not> co_cod b \<longrightarrow>
            create_order_p002 e clk b w =
              (Create_failed 500 ''Failed to create order'' None,
               w\<lparr>trace := trace w @ [Gateway_call (gateway_options e clk b a)]\<rparr>) \<and>
            disk (snd (create_order_p002 e clk b w)) = disk w \<and>
            stored_orders (snd (create_order_p002 e clk b w)) = stored_orders w)))"
proof -
  have m: "create_order_p000 e clk b w = (Create_failed 400 ''Missing amount'' None, w) \<and>
      create_order_p002 e clk b w = (Create_failed 400 ''Missing amount'' None, w)"
    if "co_amount b = None \<or> (\<exists>a. co_amount b = Some a \<and> falsy_number e a)"
    using create_order_missing_amount [OF that] by simp
  have u: "create_order_p000 e clk b w = (Create_failed 500 ''Razorpay not configured'' None, w)"
    if "co_amount b = Some a" "\<not> falsy_number e a" "razorpay e = None"
    using that by (simp add: create_order_p000_unconfigured)
  have r0: "create_order_p000 e clk b w =
           (Create_failed 500 ''Failed to create order'' (Some err),
            w\<lparr>trace := trace w @ [Gateway_call (gateway_options e clk b a)]\<rparr>) \<and>
         disk (snd (create_order_p000 e clk b w)) = disk w \<and>
         stored_orders (snd (create_order_p000 e clk b w)) = stored_orders w"
    if "co_amount b = Some a" "\<not> falsy_number e a" "razorpay e = Some create"
       "create (gateway_options e clk b a) = Inl err"
    using that by (simp add: create_order_p000_rejected)
  have r2: "create_order_p002 e clk b w =
              (Create_failed 500 ''Failed to create order'' None,
               w\<lparr>trace := trace w @ [Gateway_call (gateway_options e clk b a)]\<rparr>) \<and>
            disk (snd (create_order_p002 e clk b w)) = disk w \<and>
            stored_orders (snd (create_order_p002 e clk b w)) = stored_orders w"
    if "co_amount b = Some a" "\<not> falsy_number e a" "razorpay e = Some create"
       "create (gateway_options e clk b a) = Inl err" "\<not> co_cod b"
    using that by (simp add: create_order_p002_rejected)
  show ?thesis
    using m u r0 r2 by blast
qed

theorem create_order_failure_persists_nothing_witness:
  "create_order_p002 sample_env sample_clock (sample_create_body\<lparr>co_amount := None\<rparr>) sample_world =
     (Create_failed 400 ''Missing amount'' None, sample_world) \<and>
   create_order_p000 (sample_env\<lparr>razorpay := None\<rparr>) sample_clock sample_create_body sample_world =
     (Create_failed 500 ''Razorpay not configured'' None, sample_world) \<and>
   fst (create_order_p002 (sample_env\<lparr>razorpay := Some unreachable_gateway\<rparr>) sample_clock
        sample_create_body sample_world) =
     Create_failed 500 ''Failed to create order'' None \<and>
   stored_orders (snd (create_order_p002 (sample_env\<lparr>razorpay := Some unreachable_gateway\<rparr>)
        sample_clock sample_create_body sample_world)) = [sample_order] \<and>
   fst (create_order_p000 (sample_env\<lparr>razorpay := Some unreachable_gateway\<rparr>) sample_clock
        sample_create_body sample_world) =
     Create_failed 500 ''Failed to create order'' (Some ''ECONNREFUSED'') \<and>
   stored_orders (snd (create_order_p000 (sample_env\<lparr>razorpay := Some unreachable_gateway\<rparr>)
        sample_clock sample_create_body sample_world)) = [sample_order]"
proof -
  have one: "create_order_p002 sample_env sample_clock (sample_create_body\<lparr>co_amount := None\<rparr>)
      sample_world = (Create_failed 400 ''Missing amount'' None, sample_world)"
    using create_order_failure_persists_nothing
      [where b = "sample_create_body\<lparr>co_amount := None\<rparr>" and e = sample_env
         and clk = sample_clock and w = sample_world]
    by simp
  have amt: "co_amount sample_create_body = Some 500 \<and>
      \<not> falsy_number (sample_env\<lparr>razorpay := g\<rparr>) (500::nat)" for g
    by (simp add: sample_create_body_def sample_env_def)
  have two: "create_order_p000 (sample_env\<lparr>razorpay := None\<rparr>) sample_clock sample_create_body
      sample_world = (Create_failed 500 ''Razorpay not configured'' None, sample_world)"
    using create_order_failure_persists_nothing
      [where b = sample_create_body and e = "sample_env\<lparr>razorpay := None\<rparr>" and a = 500
         and clk = sample_clock and w = sample_world] amt
    by simp
  have cod: "\<not> co_cod sample_create_body"
    by (simp add: sample_create_body_def)
  have g: "razorpay (sample_env\<lparr>razorpay := Some unreachable_gateway\<rparr>) = Some unreachable_gateway \<and>
      unreachable_gateway (gateway_options (sample_env\<lparr>razorpay := Some unreachable_gateway\<rparr>)
        sample_clock sample_create_body 500) = Inl ''ECONNREFUSED''"
    by (simp add: unreachable_gateway_def)
  have three: "fst (create_order_p002 (sample_env\<lparr>razorpay := Some unreachable_gateway\<rparr>)
        sample_clock sample_create_body sample_world) =
        Create_failed 500 ''Failed to create order'' None \<and>
      stored_orders (snd (create_order_p002 (sample_env\<lparr>razorpay := Some unreachable_gateway\<rparr>)
        sample_clock sample_create_body sample_world)) = [sample_order] \<and>
      fst (create_order_p000 (sample_env\<lparr>razorpay := Some unreachable_gateway\<rparr>) sample_clock
        sample_create_body sample_world) =
        Create_failed 500 ''Failed to create order'' (Some ''ECONNREFUSED'') \<and>
      stored_orders (snd (create_order_p000 (sample_env\<lparr>razorpay := Some unreachable_gateway\<rparr>)
        sample_clock sample_create_body sample_world)) = [sample_order]"
    using create_order_failure_persists_nothing
      [where b = sample_create_body and e = "sample_env\<lparr>razorpay := Some unreachable_gateway\<rparr>"
         and a = 500 and create = unreachable_gateway and err = "''ECONNREFUSED''"
         and clk = sample_clock and w = sample_world] amt cod g
    by simp
  show ?thesis
    using one two three by blast
qed

section \<open>The stored amount in paise\<close>








section \<open>User objects in responses\<close>

lemma userSafe_keys:
  "''password'' \<notin> fst ` set (userSafe u) \<and> ''salt'' \<notin> fst ` set (userSafe u)"
  by (auto simp: userSafe_def)

lemma register_returns_userSafe:
  "returned_user (fst (register_p002 e salt token clk b w)) = Some u \<Longrightarrow> \<exists>v. u = userSafe v"
  by (auto simp: register_p002_def Let_def split: prod.splits option.splits if_splits)

lemma login_returns_userSafe:
  "returned_user (fst (login_p002 e token b w)) = Some u \<Longrightarrow> \<exists>v. u = userSafe v"
  by (auto simp: login_p002_def Let_def split: prod.splits option.splits sum.splits if_splits)

lemma me_returns_userSafe:
  "returned_user (fst (me_p002 e authorization w)) = Some u \<Longrightarrow> \<exists>v. u = userSafe v"
  by (auto simp: me_p002_def Let_def split: prod.splits option.splits if_splits)

text \<open>
  C10. Whenever \<^verbatim>\<open>/register\<close>, \<^verbatim>\<open>/login\<close> or \<^verbatim>\<open>/me\<close> of \<^verbatim>\<open>part_002\<close>
  answers with a user object, that object has neither the key \<open>password\<close> nor the key
  \<open>salt\<close>, for every request, every stored document and every choice of the library
  functions.
\<close>

theorem responses_omit_password_and_salt:
  "(\<forall>u. returned_user (fst (register_p002 e salt token clk b w)) = Some u \<longrightarrow>
        ''password'' \<notin> fst ` set u \<and> ''salt'' \<notin> fst ` set u) \<and>
   (\<forall>u. returned_user (fst (login_p002 e token b w)) = Some u \<longrightarrow>
        ''password'' \<notin> fst ` set u \<and> ''salt'' \<notin> fst ` set u) \<and>
   (\<forall>u. returned_user (fst (me_p002 e authorization w)) = Some u \<longrightarrow>
        ''password'' \<notin> fst ` set u \<and> ''salt'' \<notin> fst ` set u)"
  using register_returns_userSafe [of e salt token clk b w]
    login_returns_userSafe [of e token b w] me_returns_userSafe [of e authorization w]
    userSafe_keys
  by blast

theorem responses_omit_password_and_salt_witness:
  "returned_user (fst (login_p002 sample_env ''tok1'' sample_login sample_world)) =
     Some [(''id'', Num 2), (''name'', Str ''Asha''), (''email'', Str ''asha@example.com''),
           (''token'', Str ''tok1''), (''created_at'', Num 2)] \<and>
   ''password'' \<notin> fst ` set [(''id'', Num 2), (''name'', Str ''Asha''),
       (''email'', Str ''asha@example.com''), (''token'', Str ''tok1''), (''created_at'', Num 2)] \<and>
   ''salt'' \<notin> fst ` set [(''id'', Num 2), (''name'', Str ''Asha''),
       (''email'', Str ''asha@example.com''), (''token'', Str ''tok1''), (''created_at'', Num 2)]"
proof -
  have r: "returned_user (fst (login_p002 sample_env ''tok1'' sample_login sample_world)) =
     Some [(''id'', Num 2), (''name'', Str ''Asha''), (''email'', Str ''asha@example.com''),
           (''token'', Str ''tok1''), (''created_at'', Num 2)]"
    by (simp add: login_p002_def Let_def readDB_p002_def writeDB_def sample_world_def
        sample_login_def sample_env_def sample_user_def falsy_def email_matches_def
        String_val_def String_js_def verifyPassword_def hashPassword_def userSafe_def)
  from responses_omit_password_and_salt
         [where e = sample_env and token = "''tok1''" and b = sample_login and w = sample_world,
          THEN conjunct2, THEN conjunct1, rule_format, OF r] r
  show ?thesis by simp
qed


end
